theory Spec2Isabelle
  imports Main
begin

section \<open>Python values\<close>

text \<open>
  The provider works on decoded JSON: \<open>None\<close>, booleans, integers, text, lists and
  dictionaries. A dictionary is an association list in which the first binding of a key
  is the one that counts. Text is a list of characters; \<open>str\<close> of a text value is the
  text itself.
\<close>

datatype pyval =
    PNone
  | PBool bool
  | PInt int
  | PStr string
  | PList "pyval list"
  | PDict "(string \<times> pyval) list"

datatype exc = AttributeError | KeyError | TypeError | SyntaxError | FetchError

text \<open>Python truth value testing, as used by \<open>if v\<close>, \<open>not v\<close>, \<open>a or b\<close>.\<close>

fun truthy :: "pyval \<Rightarrow> bool" where
  "truthy PNone = False"
| "truthy (PBool b) = b"
| "truthy (PInt i) = (i \<noteq> 0)"
| "truthy (PStr s) = (s \<noteq> [])"
| "truthy (PList xs) = (xs \<noteq> [])"
| "truthy (PDict kvs) = (kvs \<noteq> [])"

definition falsy :: "pyval \<Rightarrow> bool" where
  "falsy v = (\<not> truthy v)"

text \<open>\<open>d.get(k, default)\<close> on a dictionary.\<close>

definition dict_get :: "(string \<times> pyval) list \<Rightarrow> string \<Rightarrow> pyval \<Rightarrow> pyval" where
  "dict_get kvs k d = (case map_of kvs k of None \<Rightarrow> d | Some v \<Rightarrow> v)"

text \<open>\<open>d[k] = v\<close>: an existing key keeps its place, a new key is added.\<close>

fun dict_set :: "(string \<times> pyval) list \<Rightarrow> string \<Rightarrow> pyval \<Rightarrow> (string \<times> pyval) list" where
  "dict_set [] k v = [(k, v)]"
| "dict_set (p # ps) k v = (if fst p = k then (k, v) # ps else p # dict_set ps k v)"

text \<open>\<open>v.get(k, default)\<close> on any value: only a dictionary has the method.\<close>

fun py_get :: "pyval \<Rightarrow> string \<Rightarrow> pyval \<Rightarrow> exc + pyval" where
  "py_get (PDict kvs) k d = Inr (dict_get kvs k d)"
| "py_get _ k d = Inl AttributeError"

text \<open>\<open>v[k]\<close> with a text key: a missing key, or a value that is no dictionary, raises.\<close>

fun py_item :: "pyval \<Rightarrow> string \<Rightarrow> exc + pyval" where
  "py_item (PDict kvs) k = (case map_of kvs k of None \<Rightarrow> Inl KeyError | Some v \<Rightarrow> Inr v)"
| "py_item _ k = Inl TypeError"

text \<open>
  \<open>getattr(v, 'name', default)\<close>: none of the decoded JSON types (dict, list, text, int,
  bool, None) has an attribute called \<open>name\<close>, so the default is what comes back. A
  dictionary's keys are items, not attributes.
\<close>

fun getattr_name :: "pyval \<Rightarrow> pyval \<Rightarrow> pyval" where
  "getattr_name PNone d = d"
| "getattr_name (PBool b) d = d"
| "getattr_name (PInt i) d = d"
| "getattr_name (PStr s) d = d"
| "getattr_name (PList xs) d = d"
| "getattr_name (PDict kvs) d = d"

text \<open>\<open>for x in v\<close>: a dictionary yields its keys, text its characters.\<close>

fun py_iter :: "pyval \<Rightarrow> exc + pyval list" where
  "py_iter (PList xs) = Inr xs"
| "py_iter (PDict kvs) = Inr (map (\<lambda>p. PStr (fst p)) kvs)"
| "py_iter (PStr s) = Inr (map (\<lambda>c. PStr [c]) s)"
| "py_iter _ = Inl TypeError"

text \<open>A comprehension or loop body that may raise: the first exception ends it.\<close>

fun try_map :: "('a \<Rightarrow> exc + 'b) \<Rightarrow> 'a list \<Rightarrow> exc + 'b list" where
  "try_map f [] = Inr []"
| "try_map f (x # xs) =
     (case f x of
        Inl e \<Rightarrow> Inl e
      | Inr y \<Rightarrow> (case try_map f xs of Inl e \<Rightarrow> Inl e | Inr ys \<Rightarrow> Inr (y # ys)))"

subsection \<open>Text\<close>

fun dec_nat :: "nat \<Rightarrow> string" where
  "dec_nat n =
     (if n < 10 then [''0123456789'' ! n]
      else dec_nat (n div 10) @ [''0123456789'' ! (n mod 10)])"

declare dec_nat.simps [simp del]

definition dec_int :: "int \<Rightarrow> string" where
  "dec_int i = (if i < 0 then CHR ''-'' # dec_nat (nat (- i)) else dec_nat (nat i))"

definition lower_char :: "char \<Rightarrow> char" where
  "lower_char c =
     (case map_of (zip ''ABCDEFGHIJKLMNOPQRSTUVWXYZ'' ''abcdefghijklmnopqrstuvwxyz'') c of
        None \<Rightarrow> c
      | Some l \<Rightarrow> l)"

definition py_lower :: "string \<Rightarrow> string" where
  "py_lower s = map lower_char s"

text \<open>\<open>k in s\<close> for two texts: \<open>k\<close> occurs in \<open>s\<close> as a contiguous piece.\<close>

fun contains :: "string \<Rightarrow> string \<Rightarrow> bool" where
  "contains k [] = (k = [])"
| "contains k (c # cs) = (take (length k) (c # cs) = k \<or> contains k cs)"

subsection \<open>Integer conversion\<close>

definition digit_val :: "char \<Rightarrow> nat option" where
  "digit_val c =
     map_of [(CHR ''0'', 0), (CHR ''1'', 1), (CHR ''2'', 2), (CHR ''3'', 3), (CHR ''4'', 4),
             (CHR ''5'', 5), (CHR ''6'', 6), (CHR ''7'', 7), (CHR ''8'', 8), (CHR ''9'', 9)] c"

fun digits_val :: "string \<Rightarrow> nat \<Rightarrow> nat option" where
  "digits_val [] acc = Some acc"
| "digits_val (c # cs) acc =
     (case digit_val c of None \<Rightarrow> None | Some d \<Rightarrow> digits_val cs (10 * acc + d))"

definition parse_nat :: "string \<Rightarrow> nat option" where
  "parse_nat s = (if s = [] then None else digits_val s 0)"

definition is_space :: "char \<Rightarrow> bool" where
  "is_space c = (c \<in> set [CHR '' '', CHR 0x09, CHR 0x0A, CHR 0x0B, CHR 0x0C, CHR 0x0D])"

definition strip :: "string \<Rightarrow> string" where
  "strip s = rev (dropWhile is_space (rev (dropWhile is_space s)))"

text \<open>
  \<open>int(s)\<close> on text: surrounding white space is ignored, one sign is allowed, the rest
  must be a non-empty run of decimal digits. \<open>None\<close> stands for the \<open>ValueError\<close>.
\<close>

definition py_int :: "string \<Rightarrow> int option" where
  "py_int s =
     (case strip s of
        [] \<Rightarrow> None
      | c # cs \<Rightarrow>
          if c = CHR ''+'' then map_option int (parse_nat cs)
          else if c = CHR ''-'' then map_option (\<lambda>n. - int n) (parse_nat cs)
          else map_option int (parse_nat (c # cs)))"

text \<open>
  Modelled from the spec: \<open>tryInt\<close> is imported from \<open>couchpotato.core.helpers.variable\<close>,
  which is not part of the sources at hand. The spec describes the year as the integer
  read from the first four characters and as absent when the date is unparseable:
  integer conversion of the text, with the given default (here always \<open>None\<close>) when the
  argument is no text or no integer literal.
\<close>

definition tryInt :: "string option \<Rightarrow> int option" where
  "tryInt s = (case s of None \<Rightarrow> None | Some t \<Rightarrow> py_int t)"

section \<open>Collaborators\<close>

text \<open>
  Everything the provider reaches outside its own file: the two settings read through
  \<open>self.conf\<close>, the image configuration held in \<open>self.configuration\<close>, the helpers
  \<open>toUnicode\<close> and \<open>tryUrlencode\<close> of \<open>couchpotato.core.helpers.encoding\<close>, the printed
  form of lists and dictionaries, the \<open>scanner.name_year\<close> event, the values that go
  into the request headers, and the remote side. \<open>getJsonData\<close> is given the number of
  fetches made before, the URL and the keyword arguments, so that the remote side may
  answer each fetch as it likes, also with an exception.
\<close>

record env =
  conf_api_key :: string
  conf_language :: string
  configuration :: pyval
  toUnicode :: "pyval \<Rightarrow> string"
  tryUrlencode :: "(string \<times> pyval) list \<Rightarrow> string"
  py_repr :: "pyval \<Rightarrow> string"
  name_year :: "string \<Rightarrow> exc + pyval"
  app_version :: pyval
  time_now :: pyval
  core_api_key :: string
  getJsonData :: "nat \<Rightarrow> string \<Rightarrow> (string \<times> pyval) list \<Rightarrow> exc + pyval"

text \<open>\<open>str(v)\<close> and \<open>'%s' % v\<close>, given the printed form of lists and dictionaries.\<close>

fun py_str :: "(pyval \<Rightarrow> string) \<Rightarrow> pyval \<Rightarrow> string" where
  "py_str R PNone = ''None''"
| "py_str R (PBool b) = (if b then ''True'' else ''False'')"
| "py_str R (PInt i) = dec_int i"
| "py_str R (PStr s) = s"
| "py_str R (PList xs) = R (PList xs)"
| "py_str R (PDict kvs) = R (PDict kvs)"

section \<open>The provider\<close>

text \<open>
  Every operation takes the list of URLs fetched so far and returns it extended by the
  fetches it made, next to its result: \<open>Inl\<close> an exception that leaves the operation,
  \<open>Inr\<close> the value it returns.
\<close>

definition isDisabled :: "env \<Rightarrow> bool" where
  "isDisabled E = (conf_api_key E = [])"

definition truthy_params :: "(string \<times> pyval) list \<Rightarrow> (string \<times> pyval) list" where
  "truthy_params params = filter (\<lambda>p. truthy (snd p)) params"

definition request_url :: "env \<Rightarrow> string \<Rightarrow> (string \<times> pyval) list \<Rightarrow> string" where
  "request_url E call params =
     (let enc = tryUrlencode E (truthy_params params)
      in ''http://api.themoviedb.org/3/'' @ call @ ''?api_key='' @ conf_api_key E
         @ (if enc = [] then [] else ''&'' @ enc)
         @ ''&language='' @ conf_language E)"

text \<open>\<open>data and return_key and return_key in data\<close>, then \<open>data.get(return_key)\<close>.\<close>

fun pick_key :: "pyval \<Rightarrow> string \<Rightarrow> exc + pyval" where
  "pick_key (PDict kvs) k = Inr (dict_get kvs k (PDict kvs))"
| "pick_key (PList xs) k = (if PStr k \<in> set xs then Inl AttributeError else Inr (PList xs))"
| "pick_key (PStr s) k = (if contains k s then Inl AttributeError else Inr (PStr s))"
| "pick_key v k = Inl TypeError"

definition request ::
  "env \<Rightarrow> string list \<Rightarrow> string \<Rightarrow> (string \<times> pyval) list \<Rightarrow> string option
    \<Rightarrow> (exc + pyval) \<times> string list" where
  "request E log call params return_key =
     (let url = request_url E call params;
          data = (case getJsonData E (length log) url [(''show_error'', PBool False)] of
                    Inl e \<Rightarrow> PNone
                  | Inr d \<Rightarrow> d)
      in (case return_key of
            None \<Rightarrow> Inr data
          | Some k \<Rightarrow> if truthy data \<and> k \<noteq> [] then pick_key data k else Inr data,
          log @ [url]))"

definition config :: "env \<Rightarrow> string list \<Rightarrow> env \<times> string list" where
  "config E log =
     (case request E log ''configuration'' [] None of
        (Inr c, log') \<Rightarrow> (if truthy c then E\<lparr>configuration := c\<rparr> else E, log')
      | (Inl e, log') \<Rightarrow> (E, log'))"

definition getImage :: "env \<Rightarrow> pyval \<Rightarrow> string \<Rightarrow> string \<Rightarrow> string" where
  "getImage E movie type sz =
     (case py_get movie (type @ ''_path'') PNone of
        Inl e \<Rightarrow> []
      | Inr path \<Rightarrow>
          (case py_item (configuration E) ''images'' of
             Inl e \<Rightarrow> []
           | Inr im \<Rightarrow>
               (case py_item im ''secure_base_url'' of
                  Inl e \<Rightarrow> []
                | Inr base \<Rightarrow> py_str (py_repr E) base @ sz @ py_str (py_repr E) path)))"

text \<open>The slice \<open>[1:5]\<close> exists on lists and text only.\<close>

fun slice_1_5 :: "pyval \<Rightarrow> exc + pyval list" where
  "slice_1_5 (PList xs) = Inr (take 4 (drop 1 xs))"
| "slice_1_5 (PStr s) = Inr (map (\<lambda>c. PStr [c]) (take 4 (drop 1 s)))"
| "slice_1_5 _ = Inl TypeError"

definition getMultImages :: "env \<Rightarrow> pyval \<Rightarrow> string \<Rightarrow> string \<Rightarrow> string list" where
  "getMultImages E movie type sz =
     (case py_get movie ''images'' (PDict []) of
        Inl e \<Rightarrow> []
      | Inr im \<Rightarrow>
          (case py_get im type (PList []) of
             Inl e \<Rightarrow> []
           | Inr v \<Rightarrow>
               (case slice_1_5 v of
                  Inl e \<Rightarrow> []
                | Inr images \<Rightarrow> map (\<lambda>image. getImage E image ''file'' sz) images)))"

definition movie_genres :: "pyval \<Rightarrow> pyval list" where
  "movie_genres movie =
     (case py_get movie ''genres'' (PList []) of
        Inl e \<Rightarrow> []
      | Inr gs \<Rightarrow>
          (case py_iter gs of
             Inl e \<Rightarrow> []
           | Inr genres \<Rightarrow>
               (case try_map (\<lambda>genre. py_get genre ''name'' PNone) genres of
                  Inl e \<Rightarrow> []
                | Inr names \<Rightarrow> names)))"

text \<open>Lines 128 to 131 and the \<open>tryInt\<close> of line 156, on the release date read.\<close>

definition year_text :: "env \<Rightarrow> pyval \<Rightarrow> string option" where
  "year_text E release_date =
     (let year = take 4 (py_str (py_repr E) (if truthy release_date then release_date else PStr []))
      in if falsy release_date \<or> year = ''1900'' \<or> py_lower year = ''none''
         then None else Some year)"

definition movie_year :: "env \<Rightarrow> pyval \<Rightarrow> int option" where
  "movie_year E release_date = tryInt (year_text E release_date)"

text \<open>
  One round of the cast loop: both dictionaries get the actor's entry, or the item is
  skipped when it is no dictionary.
\<close>

definition cast_step ::
  "env \<Rightarrow> (string \<times> pyval) list \<times> (string \<times> pyval) list \<Rightarrow> pyval
    \<Rightarrow> (string \<times> pyval) list \<times> (string \<times> pyval) list" where
  "cast_step E acc cast_item =
     (case py_get cast_item ''character'' PNone of
        Inl e \<Rightarrow> acc
      | Inr character \<Rightarrow>
          (case py_get cast_item ''name'' PNone of
             Inl e \<Rightarrow> acc
           | Inr name \<Rightarrow>
               (dict_set (fst acc) (toUnicode E name) (PStr (toUnicode E character)),
                dict_set (snd acc) (toUnicode E name)
                  (PStr (getImage E cast_item ''profile'' ''original'')))))"

definition movie_actors ::
  "env \<Rightarrow> (string \<times> pyval) list \<Rightarrow> bool
    \<Rightarrow> exc + (string \<times> pyval) list \<times> (string \<times> pyval) list" where
  "movie_actors E m extended =
     (if extended then
        (case py_get (dict_get m ''casts'' (PDict [])) ''cast'' (PList []) of
           Inl e \<Rightarrow> Inl e
         | Inr cast \<Rightarrow>
             (case py_iter cast of
                Inl e \<Rightarrow> Inl e
              | Inr items \<Rightarrow> Inr (foldl (cast_step E) ([], []) items)))
      else Inr ([], []))"

text \<open>One round of the loop over the alternative titles (lines 172 to 175).\<close>

definition add_alt :: "pyval list \<Rightarrow> pyval \<Rightarrow> exc + pyval list" where
  "add_alt titles alt =
     (case py_get alt ''title'' PNone of
        Inl e \<Rightarrow> Inl e
      | Inr alt_name \<Rightarrow>
          if falsy alt_name then Inr titles
          else if alt_name \<in> set titles then Inr titles
          else (case alt_name of
                  PStr s \<Rightarrow> if py_lower s = ''none'' then Inr titles
                            else Inr (titles @ [alt_name])
                | _ \<Rightarrow> Inl AttributeError))"

fun add_alts :: "pyval list \<Rightarrow> pyval list \<Rightarrow> exc + pyval list" where
  "add_alts titles [] = Inr titles"
| "add_alts titles (alt # alts) =
     (case add_alt titles alt of Inl e \<Rightarrow> Inl e | Inr titles' \<Rightarrow> add_alts titles' alts)"

definition one_or_none :: "string \<Rightarrow> pyval" where
  "one_or_none url = PList (if url = [] then [] else [PStr url])"

definition movie_images ::
  "env \<Rightarrow> pyval \<Rightarrow> bool \<Rightarrow> (string \<times> pyval) list \<Rightarrow> pyval" where
  "movie_images E movie extended actor_images =
     PDict [(''poster'', one_or_none (getImage E movie ''poster'' ''w154'')),
            (''poster_original'', one_or_none (getImage E movie ''poster'' ''original'')),
            (''backdrop_original'', one_or_none (getImage E movie ''backdrop'' ''original'')),
            (''actors'', PDict actor_images),
            (''extra_thumbs'',
               PList (if extended
                      then map PStr (getMultImages E movie ''backdrops'' ''original'')
                      else []))]"

definition movie_data ::
  "env \<Rightarrow> (string \<times> pyval) list \<Rightarrow> bool
    \<Rightarrow> (string \<times> pyval) list \<times> (string \<times> pyval) list \<Rightarrow> (string \<times> pyval) list" where
  "movie_data E m extended actors =
     [(''type'', PStr ''movie''),
      (''via_tmdb'', PBool True),
      (''tmdb_id'', dict_get m ''id'' PNone),
      (''titles'', PList [PStr (toUnicode E (dict_get m ''title'' PNone))]),
      (''original_title'', PStr (toUnicode E (dict_get m ''title'' PNone))),
      (''images'', movie_images E (PDict m) extended (snd actors)),
      (''imdb'', dict_get m ''imdb_id'' PNone),
      (''runtime'', dict_get m ''runtime'' PNone),
      (''released'', PStr (py_str (py_repr E) (dict_get m ''release_date'' PNone))),
      (''year'', (case movie_year E (dict_get m ''release_date'' PNone) of
                   None \<Rightarrow> PNone | Some y \<Rightarrow> PInt y)),
      (''plot'', dict_get m ''overview'' PNone),
      (''genres'', PList (movie_genres (PDict m))),
      (''collection'', getattr_name (dict_get m ''belongs_to_collection'' PNone) PNone),
      (''actor_roles'', PDict (fst actors))]"

text \<open>
  Lines 163 to 177: the falsy attributes are dropped, then the titles are completed.
  \<open>movie_data['original_title']\<close> raises when the attribute has just been dropped.
\<close>

definition finish_titles ::
  "(string \<times> pyval) list \<Rightarrow> (string \<times> pyval) list \<Rightarrow> exc + pyval" where
  "finish_titles m md =
     (case py_item (PDict md) ''original_title'' of
        Inl e \<Rightarrow> Inl e
      | Inr original_title \<Rightarrow>
          (case py_item (PDict md) ''titles'' of
             Inl e \<Rightarrow> Inl e
           | Inr ts \<Rightarrow>
               (case py_iter ts of
                  Inl e \<Rightarrow> Inl e
                | Inr titles0 \<Rightarrow>
                    (let titles1 =
                           (if truthy original_title \<and> original_title \<notin> set titles0
                            then titles0 @ [original_title] else titles0)
                     in (case py_get (dict_get m ''alternative_titles'' (PDict []))
                                ''titles'' (PList []) of
                           Inl e \<Rightarrow> Inl e
                         | Inr alternate_titles \<Rightarrow>
                             (case py_iter alternate_titles of
                                Inl e \<Rightarrow> Inl e
                              | Inr alts \<Rightarrow>
                                  (case add_alts titles1 alts of
                                     Inl e \<Rightarrow> Inl e
                                   | Inr titles \<Rightarrow>
                                       Inr (PDict (dict_set md ''titles'' (PList titles))))))))))"

text \<open>Lines 106 to 177, on the payload that the request has brought.\<close>

definition parseMovie_payload :: "env \<Rightarrow> pyval \<Rightarrow> bool \<Rightarrow> exc + pyval" where
  "parseMovie_payload E movie extended =
     (case movie of
        PDict m \<Rightarrow>
          (case movie_actors E m extended of
             Inl e \<Rightarrow> Inl e
           | Inr actors \<Rightarrow>
               finish_titles m (truthy_params (movie_data E m extended actors)))
      | _ \<Rightarrow> Inl AttributeError)"

definition movie_call :: "env \<Rightarrow> pyval \<Rightarrow> string" where
  "movie_call E ident = ''movie/'' @ py_str (py_repr E) ident"

definition movie_params :: "bool \<Rightarrow> (string \<times> pyval) list" where
  "movie_params extended =
     [(''append_to_response'',
       PStr (''alternative_titles'' @ (if extended then '',images,casts'' else [])))]"

definition parseMovie ::
  "env \<Rightarrow> string list \<Rightarrow> pyval \<Rightarrow> bool \<Rightarrow> (exc + pyval) \<times> string list" where
  "parseMovie E log movie extended =
     (case py_get movie ''id'' PNone of
        Inl e \<Rightarrow> (Inl e, log)
      | Inr ident \<Rightarrow>
          (case request E log (movie_call E ident) (movie_params extended) None of
             (Inl e, log') \<Rightarrow> (Inl e, log')
           | (Inr payload, log') \<Rightarrow>
               (if falsy payload then Inr PNone
                else parseMovie_payload E payload extended, log')))"

text \<open>The URL that \<open>parseMovie\<close> fetches for an identifier.\<close>

definition movie_url :: "env \<Rightarrow> pyval \<Rightarrow> bool \<Rightarrow> string" where
  "movie_url E ident extended = request_url E (movie_call E ident) (movie_params extended)"

text \<open>
  The loop of \<open>search\<close> (lines 66 to 75): \<open>nr\<close> is the number of entries done, and the
  loop is left when \<open>nr\<close> equals the limit after an entry.
\<close>

fun search_loop ::
  "env \<Rightarrow> string list \<Rightarrow> pyval list \<Rightarrow> int \<Rightarrow> int \<Rightarrow> pyval list
    \<Rightarrow> (exc + pyval list) \<times> string list" where
  "search_loop E log [] limit nr results = (Inr results, log)"
| "search_loop E log (movie # raw) limit nr results =
     (case parseMovie E log movie False of
        (Inl e, log') \<Rightarrow> (Inl e, log')
      | (Inr parsed_movie, log') \<Rightarrow>
          (let results' = (if truthy parsed_movie then results @ [parsed_movie] else results)
           in if nr + 1 = limit then (Inr results', log')
              else search_loop E log' raw limit (nr + 1) results'))"

definition search_params :: "(string \<times> pyval) list \<Rightarrow> string \<Rightarrow> int \<Rightarrow> (string \<times> pyval) list" where
  "search_params name_year_d q limit =
     [(''query'', dict_get name_year_d ''name'' (PStr q)),
      (''year'', dict_get name_year_d ''year'' PNone),
      (''search_type'', PStr (if 1 < limit then ''ngram'' else ''phrase''))]"

text \<open>Lines 52 to 61: whatever goes wrong leaves \<open>raw\<close> at \<open>None\<close>.\<close>

definition search_raw :: "env \<Rightarrow> string list \<Rightarrow> string \<Rightarrow> int \<Rightarrow> pyval \<times> string list" where
  "search_raw E log q limit =
     (case name_year E q of
        Inl e \<Rightarrow> (PNone, log)
      | Inr (PDict d) \<Rightarrow>
          (case request E log ''search/movie'' (search_params d q limit) (Some ''results'') of
             (Inl e, log') \<Rightarrow> (PNone, log')
           | (Inr raw, log') \<Rightarrow> (raw, log'))
      | Inr _ \<Rightarrow> (PNone, log))"

definition search :: "env \<Rightarrow> string list \<Rightarrow> string \<Rightarrow> int \<Rightarrow> (exc + pyval) \<times> string list" where
  "search E log q limit =
     (if isDisabled E then (Inr (PBool False), log)
      else
        (case search_raw E log q limit of
           (raw, log1) \<Rightarrow>
             if truthy raw then
               (case py_iter raw of
                  Inl e \<Rightarrow> (if e = SyntaxError then Inr (PBool False) else Inl e, log1)
                | Inr movies \<Rightarrow>
                    (case search_loop E log1 movies limit 0 [] of
                       (Inl e, log2) \<Rightarrow>
                         (if e = SyntaxError then Inr (PBool False) else Inl e, log2)
                     | (Inr results, log2) \<Rightarrow> (Inr (PList results), log2)))
             else (Inr (PList []), log1)))"

definition getInfo ::
  "env \<Rightarrow> string list \<Rightarrow> pyval \<Rightarrow> bool \<Rightarrow> (exc + pyval) \<times> string list" where
  "getInfo E log identifier extended =
     (if falsy identifier then (Inr (PDict []), log)
      else
        (case parseMovie E log (PDict [(''id'', identifier)]) extended of
           (Inl e, log') \<Rightarrow> (Inl e, log')
         | (Inr result, log') \<Rightarrow> (Inr (if truthy result then result else PDict []), log')))"

definition getRequestHeaders :: "env \<Rightarrow> pyval" where
  "getRequestHeaders E =
     PDict [(''X-CP-Version'', app_version E),
            (''X-CP-API'', PInt 1),
            (''X-CP-Time'', time_now E),
            (''X-CP-Identifier'', PStr (''+'' @ take 10 (core_api_key E)))]"

definition isMovie_url :: "env \<Rightarrow> pyval \<Rightarrow> bool \<Rightarrow> string" where
  "isMovie_url E identifier adding =
     ''https://api.couchpota.to/ismovie/'' @ py_str (py_repr E) identifier @ ''/''
     @ (if adding then ''?adding=1'' else [])"

definition isMovie ::
  "env \<Rightarrow> string list \<Rightarrow> pyval \<Rightarrow> bool \<Rightarrow> (exc + pyval) \<times> string list" where
  "isMovie E log identifier adding =
     (if falsy identifier then (Inr PNone, log)
      else
        (let url = isMovie_url E identifier adding
         in (case getJsonData E (length log) url [(''headers'', getRequestHeaders E)] of
               Inl e \<Rightarrow> Inl e
             | Inr data \<Rightarrow>
                 if truthy data then py_get data ''is_movie'' (PBool True)
                 else Inr (PBool True),
             log @ [url])))"

section \<open>Reading a record\<close>

text \<open>The titles of a returned record, and the entries that are the token \<open>none\<close>.\<close>

definition record_titles :: "exc + pyval \<Rightarrow> pyval list" where
  "record_titles r =
     (case r of
        Inr (PDict kvs) \<Rightarrow> (case map_of kvs ''titles'' of Some (PList ts) \<Rightarrow> ts | _ \<Rightarrow> [])
      | _ \<Rightarrow> [])"

definition none_token :: "pyval \<Rightarrow> bool" where
  "none_token r = (case r of PStr s \<Rightarrow> py_lower s = ''none'' | _ \<Rightarrow> False)"

text \<open>The year of a returned record, when it has one.\<close>

definition record_year :: "exc + pyval \<Rightarrow> pyval option" where
  "record_year r = (case r of Inr (PDict kvs) \<Rightarrow> map_of kvs ''year'' | _ \<Rightarrow> None)"

section \<open>A remote side for the examples\<close>

text \<open>
  The settings are the defaults of the source file. \<open>toUnicode\<close> leaves text as it is
  and prints anything else; the parameters are encoded in the order given; the title
  parser gives the query back as the name, with no year. The remote side answers the
  fetches in turn from a list of replies, and fails when the list is used up.
\<close>

fun encode_params :: "(string \<times> pyval) list \<Rightarrow> string" where
  "encode_params [] = []"
| "encode_params [p] = fst p @ ''='' @ py_str (\<lambda>v. ''?'') (snd p)"
| "encode_params (p # ps) =
     fst p @ ''='' @ py_str (\<lambda>v. ''?'') (snd p) @ ''&'' @ encode_params ps"

definition replies ::
  "(exc + pyval) list \<Rightarrow> nat \<Rightarrow> string \<Rightarrow> (string \<times> pyval) list \<Rightarrow> exc + pyval" where
  "replies rs n url kwargs = (if n < length rs then rs ! n else Inl FetchError)"

definition example_env :: "(exc + pyval) list \<Rightarrow> env" where
  "example_env rs =
     \<lparr>conf_api_key = ''9b939aee0aaafc12a65bf448e4af9543'',
      conf_language = ''de'',
      configuration =
        PDict [(''images'', PDict [(''secure_base_url'', PStr ''https://image.tmdb.org/t/p/'')])],
      toUnicode = py_str (\<lambda>v. ''?''),
      tryUrlencode = encode_params,
      py_repr = (\<lambda>v. ''?''),
      name_year = (\<lambda>q. Inr (PDict [(''name'', PStr q)])),
      app_version = PStr ''3.0.1'',
      time_now = PInt 1400000000,
      core_api_key = ''0123456789abcdef'',
      getJsonData = replies rs\<rparr>"

text \<open>
  The payload of the title example: the title \<open>Matrix\<close>, with the alternative titles
  \<open>Matrix\<close> and \<open>None\<close>; and the record that the non-extended pass makes of it.
\<close>

definition matrix_payload :: "(string \<times> pyval) list" where
  "matrix_payload =
     [(''id'', PInt 603),
      (''title'', PStr ''Matrix''),
      (''alternative_titles'',
         PDict [(''titles'', PList [PDict [(''title'', PStr ''Matrix'')],
                                    PDict [(''title'', PStr ''None'')]])])]"

definition matrix_record :: "(string \<times> pyval) list" where
  "matrix_record =
     [(''type'', PStr ''movie''),
      (''via_tmdb'', PBool True),
      (''tmdb_id'', PInt 603),
      (''titles'', PList [PStr ''Matrix'']),
      (''original_title'', PStr ''Matrix''),
      (''images'',
         PDict [(''poster'', PList [PStr ''https://image.tmdb.org/t/p/w154None'']),
                (''poster_original'', PList [PStr ''https://image.tmdb.org/t/p/originalNone'']),
                (''backdrop_original'',
                   PList [PStr ''https://image.tmdb.org/t/p/originalNone'']),
                (''actors'', PDict []),
                (''extra_thumbs'', PList [])]),
      (''released'', PStr ''None'')]"

text \<open>A payload with a title and the release date given.\<close>

definition dated_payload :: "string \<Rightarrow> (string \<times> pyval) list" where
  "dated_payload d =
     [(''id'', PInt 603), (''title'', PStr ''The Matrix''), (''release_date'', PStr d)]"

text \<open>A search that brings three hits, and the payload of each.\<close>

definition three_hits :: "(exc + pyval) list" where
  "three_hits =
     [Inr (PDict [(''results'',
             PList [PDict [(''id'', PInt 603)], PDict [(''id'', PInt 604)],
                    PDict [(''id'', PInt 605)]])]),
      Inr (PDict [(''id'', PInt 603), (''title'', PStr ''The Matrix'')]),
      Inr (PDict [(''id'', PInt 604), (''title'', PStr ''The Matrix Reloaded'')]),
      Inr (PDict [(''id'', PInt 605), (''title'', PStr ''The Matrix Revolutions'')])]"

section \<open>Integer conversion of short texts\<close>

text \<open>
  The only text of at most four characters that converts to 1900 is \<open>1900\<close> itself: a
  sign or white space leaves at most three digits.
\<close>

lemma digit_val_cases: "digit_val c = Some d \<Longrightarrow>
   (c, d) \<in> set [(CHR ''0'', 0), (CHR ''1'', 1), (CHR ''2'', 2), (CHR ''3'', 3), (CHR ''4'', 4),
             (CHR ''5'', 5), (CHR ''6'', 6), (CHR ''7'', 7), (CHR ''8'', 8), (CHR ''9'', 9)]"
  unfolding digit_val_def by (rule map_of_SomeD)

lemma digit_val_le9: "digit_val c = Some d \<Longrightarrow> d \<le> 9"
  by (drule digit_val_cases) auto

lemma digit_val_0: "digit_val c = Some 0 \<Longrightarrow> c = CHR ''0''"
  by (drule digit_val_cases) auto

lemma digit_val_1: "digit_val c = Some (Suc 0) \<Longrightarrow> c = CHR ''1''"
  by (drule digit_val_cases) auto

lemma digit_val_9: "digit_val c = Some 9 \<Longrightarrow> c = CHR ''9''"
  by (drule digit_val_cases) auto


lemma digits_val_upper:
  "digits_val s acc = Some v \<Longrightarrow> v < (acc + 1) * 10 ^ length s"
proof (induction s arbitrary: acc)
  case Nil
  then show ?case by simp
next
  case (Cons c cs)
  from Cons.prems obtain d where d: "digit_val c = Some d"
    and r: "digits_val cs (10 * acc + d) = Some v"
    by (cases "digit_val c") simp_all
  from digit_val_le9 [OF d] have "10 * acc + d + 1 \<le> (acc + 1) * 10" by simp
  then have b: "(10 * acc + d + 1) * 10 ^ length cs \<le> (acc + 1) * 10 * 10 ^ length cs"
    by (rule mult_le_mono1)
  have c: "(acc + 1) * 10 * 10 ^ length cs = (acc + 1) * 10 ^ length (c # cs)"
    by (simp add: algebra_simps)
  from Cons.IH [OF r] b have "v < (acc + 1) * 10 * 10 ^ length cs" by (rule less_le_trans)
  with c show ?case by (simp only:)
qed

lemma dropWhile_same_length:
  assumes "length (dropWhile P xs) = length xs"
  shows "dropWhile P xs = xs"
proof (cases xs)
  case Nil
  then show ?thesis by simp
next
  case (Cons y ys)
  show ?thesis
  proof (cases "P y")
    case True
    with Cons assms have "length (dropWhile P ys) = Suc (length ys)" by simp
    with length_dropWhile_le [of P ys] show ?thesis by simp
  next
    case False
    with Cons show ?thesis by simp
  qed
qed

lemma length_strip_le: "length (strip s) \<le> length s"
proof -
  have "length (strip s) \<le> length (dropWhile is_space s)"
    unfolding strip_def using length_dropWhile_le [of is_space "rev (dropWhile is_space s)"]
    by simp
  also have "\<dots> \<le> length s" by (rule length_dropWhile_le)
  finally show ?thesis .
qed

lemma strip_same_length:
  assumes a: "length (strip s) = length s"
  shows "strip s = s"
proof -
  have 1: "length (strip s) \<le> length (dropWhile is_space s)"
    unfolding strip_def using length_dropWhile_le [of is_space "rev (dropWhile is_space s)"]
    by simp
  have 2: "length (dropWhile is_space s) \<le> length s" by (rule length_dropWhile_le)
  from a 1 2 have e: "length (dropWhile is_space s) = length s" by simp
  then have d: "dropWhile is_space s = s" by (rule dropWhile_same_length)
  from a have "length (dropWhile is_space (rev s)) = length (rev s)"
    by (simp add: strip_def d)
  then have "dropWhile is_space (rev s) = rev s" by (rule dropWhile_same_length)
  then show ?thesis by (simp add: strip_def d)
qed


lemma four_digits_1900:
  assumes "digits_val [a, b, c, d] 0 = Some 1900"
  shows "[a, b, c, d] = ''1900''"
proof -
  from assms obtain da where va: "digit_val a = Some da"
    and r1: "digits_val [b, c, d] (10 * 0 + da) = Some 1900"
    by (cases "digit_val a") simp_all
  from r1 obtain db where vb: "digit_val b = Some db"
    and r2: "digits_val [c, d] (10 * (10 * 0 + da) + db) = Some 1900"
    by (cases "digit_val b") simp_all
  from r2 obtain dc where vc: "digit_val c = Some dc"
    and r3: "digits_val [d] (10 * (10 * (10 * 0 + da) + db) + dc) = Some 1900"
    by (cases "digit_val c") simp_all
  from r3 obtain dd where vd: "digit_val d = Some dd"
    and s: "10 * (10 * (10 * (10 * 0 + da) + db) + dc) + dd = 1900"
    by (cases "digit_val d") simp_all
  have le: "da \<le> 9" "db \<le> 9" "dc \<le> 9" "dd \<le> 9"
    using va vb vc vd by (auto dest: digit_val_le9)
  from s have s': "1000 * da + 100 * db + 10 * dc + dd = 1900" by simp
  from s' le have a1: "da = Suc 0" by linarith
  from s' le a1 have b9: "db = 9" by linarith
  from s' a1 b9 have c0: "dc = 0" and d0: "dd = 0" by linarith+
  from va a1 have "a = CHR ''1''" by (simp add: digit_val_1)
  moreover from vb b9 have "b = CHR ''9''" by (simp add: digit_val_9)
  moreover from vc c0 have "c = CHR ''0''" by (simp add: digit_val_0)
  moreover from vd d0 have "d = CHR ''0''" by (simp add: digit_val_0)
  ultimately show ?thesis by simp
qed


lemma parse_nat_short:
  assumes "parse_nat t = Some v" "length t \<le> 3"
  shows "v < 1000"
proof -
  from assms(1) have dv: "digits_val t 0 = Some v"
    by (cases "t = []") (simp_all add: parse_nat_def)
  from digits_val_upper [OF dv] have "v < (10::nat) ^ length t" by simp
  moreover from assms(2) have "(10::nat) ^ length t \<le> 10 ^ 3"
    by (intro power_increasing) simp_all
  ultimately show ?thesis by simp
qed

lemma parse_nat_1900:
  assumes "parse_nat t = Some 1900" "length t \<le> 4"
  shows "t = ''1900''"
proof -
  from assms(1) have dv: "digits_val t 0 = Some 1900"
    by (cases "t = []") (simp_all add: parse_nat_def)
  from parse_nat_short [OF assms(1)] have "\<not> length t \<le> 3" by auto
  with assms(2) have "length t = Suc (Suc (Suc (Suc 0)))" by simp
  then obtain a b c d where t: "t = [a, b, c, d]"
    by (auto simp: length_Suc_conv)
  from dv have "digits_val [a, b, c, d] 0 = Some 1900" by (simp only: t)
  then have "[a, b, c, d] = ''1900''" by (rule four_digits_1900)
  then show ?thesis by (simp only: t)
qed

lemma py_int_1900:
  assumes "py_int s = Some 1900" "length s \<le> 4"
  shows "s = ''1900''"
proof -
  from assms(1) obtain c cs where t: "strip s = c # cs"
    by (cases "strip s") (simp_all add: py_int_def)
  have len: "length (c # cs) \<le> 4"
    using length_strip_le [of s] assms(2) t by simp
  show ?thesis
  proof (cases "c = CHR ''+''")
    case True
    with assms(1) t obtain n where "parse_nat cs = Some n" "int n = 1900"
      by (auto simp: py_int_def)
    with parse_nat_short [of cs n] len show ?thesis by simp
  next
    case False
    show ?thesis
    proof (cases "c = CHR ''-''")
      case True
      with assms(1) t show ?thesis by (auto simp: py_int_def)
    next
      case m: False
      with False assms(1) t obtain n where "parse_nat (c # cs) = Some n" "int n = 1900"
        by (auto simp: py_int_def)
      then have "parse_nat (c # cs) = Some 1900" by simp
      from parse_nat_1900 [OF this len] have e: "c # cs = ''1900''" .
      with t have "length (strip s) = 4" by simp
      with length_strip_le [of s] assms(2) have "length (strip s) = length s" by simp
      from strip_same_length [OF this] t e show ?thesis by simp
    qed
  qed
qed

section \<open>The year of a release date\<close>

lemma year_text_length: "year_text E rd = Some y \<Longrightarrow> length y \<le> 4"
  by (auto simp: year_text_def Let_def split: if_splits)

lemma year_text_not_1900: "year_text E rd \<noteq> Some ''1900''"
  by (auto simp: year_text_def Let_def split: if_splits)

lemma movie_year_not_1900: "movie_year E rd \<noteq> Some 1900"
proof
  assume a: "movie_year E rd = Some 1900"
  then obtain y where y: "year_text E rd = Some y" and p: "py_int y = Some 1900"
    by (cases "year_text E rd") (simp_all add: movie_year_def tryInt_def)
  from py_int_1900 [OF p year_text_length [OF y]] y year_text_not_1900 [of E rd]
  show False by simp
qed

lemma movie_year_absent:
  "rd = PNone \<or> rd = PStr [] \<Longrightarrow> movie_year E rd = None"
  by (auto simp: movie_year_def year_text_def falsy_def tryInt_def)

lemma movie_year_text:
  "d \<noteq> [] \<Longrightarrow> take 4 d \<noteq> ''1900'' \<Longrightarrow> py_lower (take 4 d) \<noteq> ''none'' \<Longrightarrow>
   movie_year E (PStr d) = py_int (take 4 d)"
  by (simp add: movie_year_def year_text_def falsy_def tryInt_def Let_def)

lemma movie_year_excluded:
  "d = [] \<or> take 4 d = ''1900'' \<or> py_lower (take 4 d) = ''none'' \<Longrightarrow>
   movie_year E (PStr d) = None"
  by (auto simp: movie_year_def year_text_def falsy_def tryInt_def Let_def)

section \<open>The record of a payload\<close>

lemma map_of_truthy_params:
  "distinct (map fst kvs) \<Longrightarrow>
   map_of (truthy_params kvs) k =
     (case map_of kvs k of None \<Rightarrow> None | Some v \<Rightarrow> if truthy v then Some v else None)"
proof (induction kvs)
  case Nil
  then show ?case by (simp add: truthy_params_def)
next
  case (Cons p ps)
  then have ih: "map_of (truthy_params ps) k =
     (case map_of ps k of None \<Rightarrow> None | Some v \<Rightarrow> if truthy v then Some v else None)"
    by simp
  show ?case
  proof (cases "fst p = k")
    case False
    with ih show ?thesis by (cases p) (simp add: truthy_params_def)
  next
    case True
    with Cons.prems have "k \<notin> fst ` set ps" by auto
    then have "map_of ps k = None" by (simp add: map_of_eq_None_iff)
    with ih True show ?thesis by (cases p) (simp add: truthy_params_def)
  qed
qed

lemma truthy_params_all: "list_all (\<lambda>p. truthy (snd p)) (truthy_params kvs)"
  by (simp add: truthy_params_def list_all_iff)

lemma map_of_dict_set:
  "map_of (dict_set kvs k v) k' = (if k' = k then Some v else map_of kvs k')"
  by (induction kvs) auto

lemma dict_set_all:
  "list_all P kvs \<Longrightarrow> P (k, v) \<Longrightarrow> list_all P (dict_set kvs k v)"
  by (induction kvs) auto

lemma movie_data_keys: "distinct (map fst (movie_data E m extended actors))"
  by (simp add: movie_data_def)

lemma movie_data_titles:
  "map_of (truthy_params (movie_data E m extended actors)) ''titles'' =
     Some (PList [PStr (toUnicode E (dict_get m ''title'' PNone))])"
  by (simp add: map_of_truthy_params [OF movie_data_keys]) (simp add: movie_data_def)

lemma movie_data_original_title:
  "map_of (truthy_params (movie_data E m extended actors)) ''original_title'' =
     (if toUnicode E (dict_get m ''title'' PNone) = [] then None
      else Some (PStr (toUnicode E (dict_get m ''title'' PNone))))"
  by (simp add: map_of_truthy_params [OF movie_data_keys]) (simp add: movie_data_def)

lemma movie_data_collection:
  "map_of (truthy_params (movie_data E m extended actors)) ''collection'' = None"
  by (simp add: map_of_truthy_params [OF movie_data_keys])
     (cases "dict_get m ''belongs_to_collection'' PNone"; simp add: movie_data_def)


lemma add_alt_cases:
  assumes "add_alt ts a = Inr ts'"
  shows "ts' = ts \<or> (\<exists>s. ts' = ts @ [PStr s] \<and> PStr s \<notin> set ts \<and> py_lower s \<noteq> ''none'')"
proof -
  from assms obtain n where n: "py_get a ''title'' PNone = Inr n"
    by (cases "py_get a ''title'' PNone") (simp_all add: add_alt_def)
  show ?thesis
  proof (cases "falsy n \<or> n \<in> set ts")
    case True
    with assms n show ?thesis by (auto simp: add_alt_def split: if_splits)
  next
    case False
    with assms n show ?thesis
      by (cases n) (auto simp: add_alt_def split: if_splits)
  qed
qed


lemma add_alts_inv:
  "add_alts ts alts = Inr ts' \<Longrightarrow> distinct ts \<Longrightarrow>
   \<exists>ys. ts' = ts @ ys \<and> distinct ts' \<and> list_all (\<lambda>r. \<not> none_token r) ys"
proof (induction alts arbitrary: ts)
  case Nil
  then show ?case by simp
next
  case (Cons a alts)
  from Cons.prems(1) obtain t1 where a: "add_alt ts a = Inr t1"
    and r: "add_alts t1 alts = Inr ts'"
    by (cases "add_alt ts a") simp_all
  from add_alt_cases [OF a] Cons.prems(2)
  obtain y1 where y1: "t1 = ts @ y1" "distinct t1" "list_all (\<lambda>r. \<not> none_token r) y1"
    by (auto simp: none_token_def)
  from Cons.IH [OF r y1(2)] obtain ys where
    ys: "ts' = t1 @ ys" "distinct ts'" "list_all (\<lambda>r. \<not> none_token r) ys" by blast
  with y1 have "ts' = ts @ (y1 @ ys) \<and> distinct ts' \<and> list_all (\<lambda>r. \<not> none_token r) (y1 @ ys)"
    by simp
  then show ?case by blast
qed

lemma finish_titles_result:
  assumes r: "finish_titles m md = Inr r"
    and t: "map_of md ''titles'' = Some (PList [PStr t])"
    and o: "map_of md ''original_title'' = Some (PStr t)"
  shows "\<exists>alts titles. add_alts [PStr t] alts = Inr titles \<and>
           r = PDict (dict_set md ''titles'' (PList titles))"
  using r unfolding finish_titles_def
  by (auto simp: t o split: sum.splits)

lemma finish_titles_KeyError:
  "map_of md ''original_title'' = None \<Longrightarrow> finish_titles m md = Inl KeyError"
  by (simp add: finish_titles_def)


lemma parseMovie_payload_result:
  assumes "parseMovie_payload E movie extended = Inr r"
  shows "\<exists>m actors alts titles.
           movie = PDict m \<and>
           toUnicode E (dict_get m ''title'' PNone) \<noteq> [] \<and>
           add_alts [PStr (toUnicode E (dict_get m ''title'' PNone))] alts = Inr titles \<and>
           r = PDict (dict_set (truthy_params (movie_data E m extended actors)) ''titles''
                        (PList titles))"
proof -
  from assms obtain m where m: "movie = PDict m"
    by (cases movie) (simp_all add: parseMovie_payload_def)
  from assms m obtain actors where
    f: "finish_titles m (truthy_params (movie_data E m extended actors)) = Inr r"
    by (cases "movie_actors E m extended") (simp_all add: parseMovie_payload_def)
  let ?t = "toUnicode E (dict_get m ''title'' PNone)"
  have ne: "?t \<noteq> []"
  proof
    assume "?t = []"
    then have "map_of (truthy_params (movie_data E m extended actors)) ''original_title''
      = None" by (simp add: movie_data_original_title)
    from finish_titles_KeyError [OF this] f show False by simp
  qed
  then have o: "map_of (truthy_params (movie_data E m extended actors)) ''original_title''
      = Some (PStr ?t)" by (simp add: movie_data_original_title)
  from finish_titles_result [OF f movie_data_titles o] m ne show ?thesis by blast
qed

lemma parseMovie_cases:
  assumes "parseMovie E log movie extended = (Inr r, log')"
  shows "r = PNone \<or> (\<exists>payload. parseMovie_payload E payload extended = Inr r)"
  using assms
  by (cases movie)
     (auto simp: parseMovie_def request_def Let_def split: if_splits sum.splits)

lemma parseMovie_payload_truthy:
  assumes "parseMovie_payload E movie extended = Inr (PDict kvs)"
  shows "list_all (\<lambda>p. truthy (snd p)) kvs"
proof -
  from parseMovie_payload_result [OF assms] obtain m actors alts titles where
    a: "add_alts [PStr (toUnicode E (dict_get m ''title'' PNone))] alts = Inr titles"
    and k: "kvs = dict_set (truthy_params (movie_data E m extended actors)) ''titles''
                        (PList titles)"
    by auto
  from add_alts_inv [OF a] have "titles \<noteq> []" by auto
  then have "truthy (snd (''titles'', PList titles))" by simp
  with truthy_params_all show ?thesis unfolding k by (rule dict_set_all)
qed

text \<open>
  Claim C6. Whenever the normalization pass returns a record, every attribute of the
  record is bound to a truthy value: no key is bound to an empty text, an empty list, an
  empty dictionary, zero, \<open>False\<close> or \<open>None\<close>.
\<close>

theorem record_values_truthy:
  assumes "parseMovie E log movie extended = (Inr (PDict kvs), log')"
  shows "list_all (\<lambda>p. truthy (snd p)) kvs"
proof -
  from parseMovie_cases [OF assms] obtain payload where
    "parseMovie_payload E payload extended = Inr (PDict kvs)" by auto
  then show ?thesis by (rule parseMovie_payload_truthy)
qed

text \<open>
  Claim C7, as amended. Whenever the normalization pass returns a record for a payload,
  its titles begin with the original title (the payload's title as \<open>toUnicode\<close> gives
  it), no title occurs twice, and no title after the first is the token \<open>none\<close> in any
  case. The first title is not filtered.
\<close>

theorem titles_of_record:
  assumes "parseMovie_payload E (PDict m) extended = Inr r"
  shows "\<exists>rest. record_titles (Inr r) = PStr (toUnicode E (dict_get m ''title'' PNone)) # rest \<and>
           distinct (record_titles (Inr r)) \<and>
           list_all (\<lambda>t. \<not> none_token t) rest"
proof -
  let ?t = "PStr (toUnicode E (dict_get m ''title'' PNone))"
  from parseMovie_payload_result [OF assms] obtain actors alts titles where
    a: "add_alts [?t] alts = Inr titles"
    and k: "r = PDict (dict_set (truthy_params (movie_data E m extended actors)) ''titles''
                        (PList titles))"
    by auto
  from k have rt: "record_titles (Inr r) = titles"
    by (simp add: record_titles_def map_of_dict_set)
  from add_alts_inv [OF a] obtain ys where
    "titles = ?t # ys" "distinct titles" "list_all (\<lambda>t. \<not> none_token t) ys" by auto
  with rt show ?thesis by simp
qed

text \<open>The theorem at a fetch that brings the payload of the title example.\<close>

theorem record_values_truthy_witness:
  "parseMovie (example_env [Inr (PDict matrix_payload)]) [] (PDict [(''id'', PInt 603)]) False
     = (Inr (PDict matrix_record),
        [''http://api.themoviedb.org/3/movie/603?api_key=9b939aee0aaafc12a65bf448e4af9543&append_to_response=alternative_titles&language=de'']) \<and>
   list_all (\<lambda>p. truthy (snd p)) matrix_record"
proof -
  have h: "parseMovie (example_env [Inr (PDict matrix_payload)]) [] (PDict [(''id'', PInt 603)])
      False
     = (Inr (PDict matrix_record),
        [''http://api.themoviedb.org/3/movie/603?api_key=9b939aee0aaafc12a65bf448e4af9543&append_to_response=alternative_titles&language=de''])"
    by code_simp
  from h record_values_truthy [OF h] show ?thesis by (rule conjI)
qed

text \<open>
  The title example of claim C7: the title \<open>Matrix\<close> with the alternative titles
  \<open>Matrix\<close> and \<open>None\<close> gives the titles \<open>Matrix\<close>, once, and nothing else.
\<close>

theorem titles_of_record_witness:
  "parseMovie_payload (example_env []) (PDict matrix_payload) False = Inr (PDict matrix_record) \<and>
   record_titles (Inr (PDict matrix_record)) = [PStr ''Matrix''] \<and>
   (\<exists>rest. record_titles (Inr (PDict matrix_record))
              = PStr (toUnicode (example_env []) (dict_get matrix_payload ''title'' PNone)) # rest \<and>
           distinct (record_titles (Inr (PDict matrix_record))) \<and>
           list_all (\<lambda>t. \<not> none_token t) rest)"
proof -
  have h: "parseMovie_payload (example_env []) (PDict matrix_payload) False
      = Inr (PDict matrix_record)"
    by code_simp
  have t: "record_titles (Inr (PDict matrix_record)) = [PStr ''Matrix'']"
    by code_simp
  from titles_of_record [OF h] h t show ?thesis by blast
qed

text \<open>
  Claim C7 as stated fails: the title of the payload is never compared with the token
  \<open>none\<close>, so a payload whose title is \<open>None\<close> gives a record with that title.
\<close>

theorem titles_counterexample:
  "\<not> list_all (\<lambda>t. \<not> none_token t)
       (record_titles
          (parseMovie_payload (example_env [])
             (PDict [(''id'', PInt 1), (''title'', PStr ''None'')]) False))"
  by code_simp

subsection \<open>The year of a record\<close>

lemma movie_data_year:
  "map_of (truthy_params (movie_data E m extended actors)) ''year'' =
     (case movie_year E (dict_get m ''release_date'' PNone) of
        None \<Rightarrow> None
      | Some y \<Rightarrow> if y = 0 then None else Some (PInt y))"
  by (simp add: map_of_truthy_params [OF movie_data_keys])
     (simp add: movie_data_def split: option.splits)

lemma record_year_of_payload:
  assumes "parseMovie_payload E (PDict m) extended = Inr r"
  shows "record_year (Inr r) =
     (case movie_year E (dict_get m ''release_date'' PNone) of
        None \<Rightarrow> None
      | Some y \<Rightarrow> if y = 0 then None else Some (PInt y))"
proof -
  from parseMovie_payload_result [OF assms] obtain actors titles where
    "r = PDict (dict_set (truthy_params (movie_data E m extended actors)) ''titles''
              (PList titles))"
    by auto
  then show ?thesis by (simp add: record_year_def map_of_dict_set movie_data_year)
qed

text \<open>
  Claim C4, as amended. Let \<open>d\<close> be the release date of a payload. The derived year is
  absent when the payload has no release date (no such key, or \<open>null\<close>), when \<open>d\<close> is
  empty, when its first four characters are \<open>1900\<close>, when they are \<open>none\<close> in any case,
  and when they are no integer literal. In every other case the derived year is the
  integer that the first four characters of \<open>d\<close> denote. It is never the number 1900.
  The record returned for the payload has that integer as its \<open>year\<close> when it is not
  zero, and has no \<open>year\<close> when the derived year is absent or zero.
\<close>

theorem year_derivation:
  "(map_of m ''release_date'' = None \<or> map_of m ''release_date'' = Some PNone \<longrightarrow>
      movie_year E (dict_get m ''release_date'' PNone) = None) \<and>
   (map_of m ''release_date'' = Some (PStr d) \<longrightarrow>
      (d = [] \<or> take 4 d = ''1900'' \<or> py_lower (take 4 d) = ''none'' \<or>
       py_int (take 4 d) = None \<longrightarrow>
         movie_year E (dict_get m ''release_date'' PNone) = None) \<and>
      (\<forall>y. d \<noteq> [] \<and> take 4 d \<noteq> ''1900'' \<and> py_lower (take 4 d) \<noteq> ''none'' \<and>
           py_int (take 4 d) = Some y \<longrightarrow>
         movie_year E (dict_get m ''release_date'' PNone) = Some y)) \<and>
   movie_year E (dict_get m ''release_date'' PNone) \<noteq> Some 1900 \<and>
   (\<forall>r. parseMovie_payload E (PDict m) extended = Inr r \<longrightarrow>
      record_year (Inr r) =
        (case movie_year E (dict_get m ''release_date'' PNone) of
           None \<Rightarrow> None
         | Some y \<Rightarrow> if y = 0 then None else Some (PInt y)))"
proof (intro conjI impI allI)
  assume "map_of m ''release_date'' = None \<or> map_of m ''release_date'' = Some PNone"
  then have "dict_get m ''release_date'' PNone = PNone"
    by (auto simp: dict_get_def)
  then show "movie_year E (dict_get m ''release_date'' PNone) = None"
    by (simp add: movie_year_absent)
next
  assume a: "map_of m ''release_date'' = Some (PStr d)"
    and b: "d = [] \<or> take 4 d = ''1900'' \<or> py_lower (take 4 d) = ''none'' \<or>
       py_int (take 4 d) = None"
  from a have g: "dict_get m ''release_date'' PNone = PStr d" by (simp add: dict_get_def)
  show "movie_year E (dict_get m ''release_date'' PNone) = None"
  proof (cases "d = [] \<or> take 4 d = ''1900'' \<or> py_lower (take 4 d) = ''none''")
    case True
    then show ?thesis unfolding g by (rule movie_year_excluded)
  next
    case False
    with b have "py_int (take 4 d) = None" by blast
    with False show ?thesis unfolding g by (simp add: movie_year_text)
  qed
next
  fix y
  assume a: "map_of m ''release_date'' = Some (PStr d)"
    and b: "d \<noteq> [] \<and> take 4 d \<noteq> ''1900'' \<and> py_lower (take 4 d) \<noteq> ''none'' \<and>
           py_int (take 4 d) = Some y"
  from a have g: "dict_get m ''release_date'' PNone = PStr d" by (simp add: dict_get_def)
  from b show "movie_year E (dict_get m ''release_date'' PNone) = Some y"
    unfolding g by (simp add: movie_year_text)
next
  show "movie_year E (dict_get m ''release_date'' PNone) \<noteq> Some 1900"
    by (rule movie_year_not_1900)
next
  fix r
  assume "parseMovie_payload E (PDict m) extended = Inr r"
  then show "record_year (Inr r) =
        (case movie_year E (dict_get m ''release_date'' PNone) of
           None \<Rightarrow> None
         | Some y \<Rightarrow> if y = 0 then None else Some (PInt y))"
    by (rule record_year_of_payload)
qed

text \<open>
  The theorem at five payloads: one without a release date, and the release dates
  1900-01-01 (no year), 1999-03-30 (the year 1999, in the record too) and 0000-01-01 (the
  year 0, which the record leaves out).
\<close>

theorem year_derivation_witness:
  "map_of matrix_payload ''release_date'' = None \<and>
   movie_year (example_env []) (dict_get matrix_payload ''release_date'' PNone) = None \<and>
   map_of (dated_payload ''1900-01-01'') ''release_date'' = Some (PStr ''1900-01-01'') \<and>
   take 4 ''1900-01-01'' = ''1900'' \<and>
   movie_year (example_env []) (dict_get (dated_payload ''1900-01-01'') ''release_date'' PNone)
     = None \<and>
   map_of (dated_payload ''1999-03-30'') ''release_date'' = Some (PStr ''1999-03-30'') \<and>
   ''1999-03-30'' \<noteq> [] \<and> take 4 ''1999-03-30'' \<noteq> ''1900'' \<and>
   py_lower (take 4 ''1999-03-30'') \<noteq> ''none'' \<and>
   py_int (take 4 ''1999-03-30'') = Some 1999 \<and>
   movie_year (example_env []) (dict_get (dated_payload ''1999-03-30'') ''release_date'' PNone)
     = Some 1999 \<and>
   parseMovie_payload (example_env []) (PDict (dated_payload ''1999-03-30'')) False
     = Inr (projr (parseMovie_payload (example_env []) (PDict (dated_payload ''1999-03-30''))
              False)) \<and>
   record_year (parseMovie_payload (example_env []) (PDict (dated_payload ''1999-03-30'')) False)
     = Some (PInt 1999) \<and>
   map_of (dated_payload ''0000-01-01'') ''release_date'' = Some (PStr ''0000-01-01'') \<and>
   ''0000-01-01'' \<noteq> [] \<and> take 4 ''0000-01-01'' \<noteq> ''1900'' \<and>
   py_lower (take 4 ''0000-01-01'') \<noteq> ''none'' \<and>
   py_int (take 4 ''0000-01-01'') = Some 0 \<and>
   movie_year (example_env []) (dict_get (dated_payload ''0000-01-01'') ''release_date'' PNone)
     = Some 0 \<and>
   parseMovie_payload (example_env []) (PDict (dated_payload ''0000-01-01'')) False
     = Inr (projr (parseMovie_payload (example_env []) (PDict (dated_payload ''0000-01-01''))
              False)) \<and>
   record_year (parseMovie_payload (example_env []) (PDict (dated_payload ''0000-01-01'')) False)
     = None"
proof -
  let ?E = "example_env []"
  let ?Y = "\<lambda>m. movie_year ?E (dict_get m ''release_date'' PNone)"
  let ?P = "\<lambda>m. parseMovie_payload ?E (PDict m) False"
  have a: "map_of matrix_payload ''release_date'' = None" by code_simp
  have b: "map_of (dated_payload ''1900-01-01'') ''release_date'' = Some (PStr ''1900-01-01'')"
    by code_simp
  have b': "take 4 ''1900-01-01'' = ''1900''" by simp
  have c: "map_of (dated_payload ''1999-03-30'') ''release_date'' = Some (PStr ''1999-03-30'')"
    by code_simp
  have c': "''1999-03-30'' \<noteq> [] \<and> take 4 ''1999-03-30'' \<noteq> ''1900'' \<and>
     py_lower (take 4 ''1999-03-30'') \<noteq> ''none'' \<and> py_int (take 4 ''1999-03-30'') = Some 1999"
    by code_simp
  have ch: "?P (dated_payload ''1999-03-30'') = Inr (projr (?P (dated_payload ''1999-03-30'')))"
    by code_simp
  have z: "map_of (dated_payload ''0000-01-01'') ''release_date'' = Some (PStr ''0000-01-01'')"
    by code_simp
  have z': "''0000-01-01'' \<noteq> [] \<and> take 4 ''0000-01-01'' \<noteq> ''1900'' \<and>
     py_lower (take 4 ''0000-01-01'') \<noteq> ''none'' \<and> py_int (take 4 ''0000-01-01'') = Some 0"
    by code_simp
  have zh: "?P (dated_payload ''0000-01-01'') = Inr (projr (?P (dated_payload ''0000-01-01'')))"
    by code_simp
  from year_derivation [where m = matrix_payload and E = ?E] a
  have 1: "?Y matrix_payload = None" by blast
  from year_derivation [where m = "dated_payload ''1900-01-01''" and d = "''1900-01-01''"
      and E = ?E] b b'
  have 2: "?Y (dated_payload ''1900-01-01'') = None" by blast
  note c3 = year_derivation [where m = "dated_payload ''1999-03-30''" and d = "''1999-03-30''"
      and E = ?E and extended = False]
  from c3 c c' have 3: "?Y (dated_payload ''1999-03-30'') = Some 1999" by blast
  from c3 ch have "record_year (Inr (projr (?P (dated_payload ''1999-03-30'')))) =
      (case ?Y (dated_payload ''1999-03-30'') of
         None \<Rightarrow> None | Some y \<Rightarrow> if y = 0 then None else Some (PInt y))"
    by blast
  then have "record_year (Inr (projr (?P (dated_payload ''1999-03-30'')))) = Some (PInt 1999)"
    by (simp add: 3)
  then have 4: "record_year (?P (dated_payload ''1999-03-30'')) = Some (PInt 1999)"
    by (subst ch)
  note z3 = year_derivation [where m = "dated_payload ''0000-01-01''" and d = "''0000-01-01''"
      and E = ?E and extended = False]
  from z3 z z' have 5: "?Y (dated_payload ''0000-01-01'') = Some 0" by blast
  from z3 zh have "record_year (Inr (projr (?P (dated_payload ''0000-01-01'')))) =
      (case ?Y (dated_payload ''0000-01-01'') of
         None \<Rightarrow> None | Some y \<Rightarrow> if y = 0 then None else Some (PInt y))"
    by blast
  then have "record_year (Inr (projr (?P (dated_payload ''0000-01-01'')))) = None"
    by (simp add: 5)
  then have 6: "record_year (?P (dated_payload ''0000-01-01'')) = None"
    by (subst zh)
  from a b b' c c' ch z z' zh 1 2 3 4 5 6 show ?thesis by blast
qed

text \<open>
  Claim C4 as stated fails: the release date \<open>abcd-01-01\<close> is not missing, not empty,
  and does not begin with \<open>1900\<close> or \<open>none\<close>, yet no year is derived from it and the
  record has none, since its first four characters are no integer.
\<close>

theorem year_derivation_counterexample:
  "''abcd-01-01'' \<noteq> [] \<and> take 4 ''abcd-01-01'' \<noteq> ''1900'' \<and>
   py_lower (take 4 ''abcd-01-01'') \<noteq> ''none'' \<and>
   movie_year (example_env []) (dict_get (dated_payload ''abcd-01-01'') ''release_date'' PNone)
     = None \<and>
   record_year (parseMovie_payload (example_env []) (PDict (dated_payload ''abcd-01-01'')) False)
     = None"
  by code_simp

section \<open>Where the code leaves the specification\<close>

text \<open>
  Claim C1. The search is to return normally whatever the remote side and the
  normalization of an entry do. It does not: the loop over the hits is guarded against
  \<open>SyntaxError\<close> only. Here the search brings one hit, and the payload of that hit has
  the empty title; the attribute \<open>original_title\<close> is dropped as falsy, line 166 reads
  it, and the \<open>KeyError\<close> leaves \<open>search\<close>.
\<close>

theorem search_raises_on_empty_title:
  "search
     (example_env
        [Inr (PDict [(''results'', PList [PDict [(''id'', PInt 603)]])]),
         Inr (PDict [(''id'', PInt 603), (''title'', PStr [])])])
     [] ''Matrix'' 3
   = (Inl KeyError,
      [''http://api.themoviedb.org/3/search/movie?api_key=9b939aee0aaafc12a65bf448e4af9543&query=Matrix&search_type=ngram&language=de'',
       ''http://api.themoviedb.org/3/movie/603?api_key=9b939aee0aaafc12a65bf448e4af9543&append_to_response=alternative_titles&language=de''])"
  by code_simp

text \<open>
  What \<open>getImage\<close> does for a payload without the path asked for, under any
  configuration that has a base URL: the URL ends in the text \<open>None\<close>.
\<close>

lemma getImage_missing_path:
  assumes "py_item (configuration E) ''images'' = Inr im"
    and "py_item im ''secure_base_url'' = Inr base"
    and "map_of m (type @ ''_path'') = None"
  shows "getImage E (PDict m) type sz = py_str (py_repr E) base @ sz @ ''None''"
  using assms by (simp add: getImage_def dict_get_def)

text \<open>
  Claim C2. A payload without \<open>poster_path\<close> is to give an empty \<open>images.poster\<close>.
  It does not: \<open>getImage\<close> formats the missing path as the text \<open>None\<close>, nothing is
  raised, and the URL ending in \<open>w154None\<close> is put into the record.
\<close>

theorem poster_without_path:
  "parseMovie_payload (example_env [])
     (PDict [(''id'', PInt 603), (''title'', PStr ''The Matrix''),
             (''backdrop_path'', PStr ''/b.jpg'')]) False
   = Inr (PDict
       [(''type'', PStr ''movie''),
        (''via_tmdb'', PBool True),
        (''tmdb_id'', PInt 603),
        (''titles'', PList [PStr ''The Matrix'']),
        (''original_title'', PStr ''The Matrix''),
        (''images'',
           PDict [(''poster'', PList [PStr ''https://image.tmdb.org/t/p/w154None'']),
                  (''poster_original'',
                     PList [PStr ''https://image.tmdb.org/t/p/originalNone'']),
                  (''backdrop_original'',
                     PList [PStr ''https://image.tmdb.org/t/p/original/b.jpg'']),
                  (''actors'', PDict []),
                  (''extra_thumbs'', PList [])]),
        (''released'', PStr ''None'')])"
  by code_simp

text \<open>No record has the attribute \<open>collection\<close>, whatever the payload.\<close>

lemma record_without_collection:
  assumes "parseMovie_payload E movie extended = Inr (PDict kvs)"
  shows "map_of kvs ''collection'' = None"
proof -
  from parseMovie_payload_result [OF assms] obtain m actors titles where
    "kvs = dict_set (truthy_params (movie_data E m extended actors)) ''titles'' (PList titles)"
    by auto
  then show ?thesis by (simp add: map_of_dict_set movie_data_collection)
qed

text \<open>
  Claim C3. A payload whose \<open>belongs_to_collection\<close> has a name is to give a record
  with that name as \<open>collection\<close>. It does not: line 159 asks the dictionary for an
  attribute, not for an item, gets the default \<open>None\<close>, and the key is dropped.
\<close>

theorem collection_with_name:
  "parseMovie_payload (example_env [])
     (PDict [(''id'', PInt 603), (''title'', PStr ''The Matrix''),
             (''poster_path'', PStr ''/p.jpg''), (''backdrop_path'', PStr ''/b.jpg''),
             (''belongs_to_collection'',
                PDict [(''id'', PInt 2344), (''name'', PStr ''The Matrix Collection'')])])
     False
   = Inr (PDict
       [(''type'', PStr ''movie''),
        (''via_tmdb'', PBool True),
        (''tmdb_id'', PInt 603),
        (''titles'', PList [PStr ''The Matrix'']),
        (''original_title'', PStr ''The Matrix''),
        (''images'',
           PDict [(''poster'', PList [PStr ''https://image.tmdb.org/t/p/w154/p.jpg'']),
                  (''poster_original'',
                     PList [PStr ''https://image.tmdb.org/t/p/original/p.jpg'']),
                  (''backdrop_original'',
                     PList [PStr ''https://image.tmdb.org/t/p/original/b.jpg'']),
                  (''actors'', PDict []),
                  (''extra_thumbs'', PList [])]),
        (''released'', PStr ''None'')])"
  by code_simp

text \<open>
  Claim C9. With an identifier \<open>isMovie\<close> is to return \<open>True\<close> whenever the response
  does not say that \<open>is_movie\<close> is false. It does not when the response is truthy and no
  dictionary: line 228 asks it for \<open>get\<close>, and the \<open>AttributeError\<close> leaves \<open>isMovie\<close>,
  which has no handler around the fetch and the reading of its result, unlike \<open>request\<close>.
  Here the responses are the list \<open>[1]\<close> and the text \<open>error\<close>.
\<close>

theorem isMovie_raises_on_non_dict:
  "isMovie (example_env [Inr (PList [PInt 1])]) [] (PStr ''tt0133093'') True
     = (Inl AttributeError, [''https://api.couchpota.to/ismovie/tt0133093/?adding=1'']) \<and>
   isMovie (example_env [Inr (PStr ''error'')]) [] (PStr ''tt0133093'') True
     = (Inl AttributeError, [''https://api.couchpota.to/ismovie/tt0133093/?adding=1''])"
  by code_simp

section \<open>The fetches of the provider\<close>

lemma request_log:
  "snd (request E log call params return_key) = log @ [request_url E call params]"
  by (simp add: request_def Let_def)

lemma parseMovie_log:
  "snd (parseMovie E log movie extended) =
     (case movie of PDict m \<Rightarrow> log @ [movie_url E (dict_get m ''id'' PNone) extended] | _ \<Rightarrow> log)"
proof (cases movie)
  case (PDict m)
  obtain r l where rq: "request E log (movie_call E (dict_get m ''id'' PNone))
      (movie_params extended) None = (r, l)" by (cases "request E log (movie_call E (dict_get m ''id'' PNone))
      (movie_params extended) None")
  with request_log [of E log "movie_call E (dict_get m ''id'' PNone)" "movie_params extended" None]
  have l: "l = log @ [movie_url E (dict_get m ''id'' PNone) extended]"
    by (simp add: movie_url_def)
  show ?thesis
    by (cases r) (simp_all add: PDict parseMovie_def rq l)
qed (simp_all add: parseMovie_def)

lemma parseMovie_log_cases:
  "\<exists>n1. snd (parseMovie E log movie False) = log @ n1 \<and> length n1 \<le> 1 \<and>
     set n1 \<subseteq> range (\<lambda>ident. movie_url E ident False)"
  by (cases movie) (simp_all add: parseMovie_log)

lemma search_loop_log:
  "nr < limit \<Longrightarrow>
   \<exists>new. snd (search_loop E log raw limit nr results) = log @ new \<and>
         int (length new) \<le> limit - nr \<and>
         set new \<subseteq> range (\<lambda>ident. movie_url E ident False)"
proof (induction raw arbitrary: log nr results)
  case Nil
  then show ?case by simp
next
  case (Cons movie raw)
  obtain r l where pm: "parseMovie E log movie False = (r, l)"
    by (cases "parseMovie E log movie False")
  from parseMovie_log_cases [of E log movie] pm
  obtain n1 where n1: "l = log @ n1" "length n1 \<le> 1"
      "set n1 \<subseteq> range (\<lambda>ident. movie_url E ident False)"
    by auto
  show ?case
  proof (cases r)
    case (Inl e)
    with pm n1 Cons.prems show ?thesis by auto
  next
    case (Inr parsed)
    show ?thesis
    proof (cases "nr + 1 = limit")
      case True
      with pm Inr n1 show ?thesis by (auto simp: Let_def)
    next
      case False
      with Cons.prems have lt: "nr + 1 < limit" by simp
      let ?res = "if truthy parsed then results @ [parsed] else results"
      from Cons.IH [OF lt, of l ?res] obtain new where
        new: "snd (search_loop E l raw limit (nr + 1) ?res) = l @ new"
          "int (length new) \<le> limit - (nr + 1)"
          "set new \<subseteq> range (\<lambda>ident. movie_url E ident False)"
        by blast
      from pm Inr False have
        "search_loop E log (movie # raw) limit nr results
           = search_loop E l raw limit (nr + 1) ?res"
        by (simp add: Let_def)
      with new n1 have
        "snd (search_loop E log (movie # raw) limit nr results) = log @ (n1 @ new) \<and>
         int (length (n1 @ new)) \<le> limit - nr \<and>
         set (n1 @ new) \<subseteq> range (\<lambda>ident. movie_url E ident False)"
        by simp
      then show ?thesis by blast
    qed
  qed
qed

lemma search_loop_take:
  "nr < limit \<Longrightarrow>
   search_loop E log raw limit nr results
     = search_loop E log (take (nat (limit - nr)) raw) limit nr results"
proof (induction raw arbitrary: log nr results)
  case Nil
  then show ?case by simp
next
  case (Cons movie raw)
  from Cons.prems obtain k where k: "nat (limit - nr) = Suc k" "k = nat (limit - (nr + 1))"
    by (cases "nat (limit - nr)") auto
  obtain r l where pm: "parseMovie E log movie False = (r, l)"
    by (cases "parseMovie E log movie False")
  show ?case
  proof (cases r)
    case (Inl e)
    with pm k show ?thesis by simp
  next
    case (Inr parsed)
    show ?thesis
    proof (cases "nr + 1 = limit")
      case True
      with pm Inr k show ?thesis by (simp add: Let_def)
    next
      case False
      with Cons.prems have lt: "nr + 1 < limit" by simp
      from Cons.IH [OF lt] pm Inr False k show ?thesis by (simp add: Let_def)
    qed
  qed
qed

text \<open>
  Claim C5, as amended. For every limit of at least 1: after the fetch of the search
  itself, \<open>search\<close> makes at most \<open>limit\<close> further fetches, and each of them is the URL
  of the non-extended pass (\<open>append_to_response=alternative_titles\<close> only) for some
  identifier; and the loop gives the same result and the same fetches on the hits cut
  down to the first \<open>limit\<close> of them, so a hit beyond the limit is neither fetched nor
  parsed.
\<close>

theorem search_limit:
  assumes "1 \<le> limit"
  shows "(\<exists>details.
            snd (search E log q limit)
              = (if isDisabled E then log else snd (search_raw E log q limit)) @ details \<and>
            int (length details) \<le> limit \<and>
            set details \<subseteq> range (\<lambda>ident. movie_url E ident False)) \<and>
         search_loop E l raw limit 0 []
           = search_loop E l (take (nat limit) raw) limit 0 []"
proof
  from assms have lt: "0 < limit" by simp
  show "search_loop E l raw limit 0 [] = search_loop E l (take (nat limit) raw) limit 0 []"
    using search_loop_take [OF lt, of E l raw "[]"] by simp
  obtain rw l1 where sr: "search_raw E log q limit = (rw, l1)"
    by (cases "search_raw E log q limit")
  show "\<exists>details.
            snd (search E log q limit)
              = (if isDisabled E then log else snd (search_raw E log q limit)) @ details \<and>
            int (length details) \<le> limit \<and>
            set details \<subseteq> range (\<lambda>ident. movie_url E ident False)"
  proof (cases "isDisabled E \<or> falsy rw")
    case True
    with sr assms have "snd (search E log q limit)
              = (if isDisabled E then log else snd (search_raw E log q limit)) @ [] \<and>
            int (length ([] :: string list)) \<le> limit \<and>
            set [] \<subseteq> range (\<lambda>ident. movie_url E ident False)"
      by (auto simp: search_def falsy_def)
    then show ?thesis by blast
  next
    case False
    then have en: "\<not> isDisabled E" and tr: "truthy rw" by (simp_all add: falsy_def)
    show ?thesis
    proof (cases "py_iter rw")
      case (Inl e)
      with sr en tr assms have "snd (search E log q limit)
              = (if isDisabled E then log else snd (search_raw E log q limit)) @ [] \<and>
            int (length ([] :: string list)) \<le> limit \<and>
            set [] \<subseteq> range (\<lambda>ident. movie_url E ident False)"
        by (simp add: search_def)
      then show ?thesis by blast
    next
      case (Inr movies)
      from search_loop_log [OF lt, of E l1 movies "[]"] obtain new where
        new: "snd (search_loop E l1 movies limit 0 []) = l1 @ new"
          "int (length new) \<le> limit"
          "set new \<subseteq> range (\<lambda>ident. movie_url E ident False)"
        by auto
      obtain r l2 where sl: "search_loop E l1 movies limit 0 [] = (r, l2)"
        by (cases "search_loop E l1 movies limit 0 []")
      with new have l2: "l2 = l1 @ new" by simp
      from sr en tr Inr sl have "snd (search E log q limit) = l2"
        by (cases r) (simp_all add: search_def)
      with l2 sr en new have "snd (search E log q limit)
              = (if isDisabled E then log else snd (search_raw E log q limit)) @ new \<and>
            int (length new) \<le> limit \<and>
            set new \<subseteq> range (\<lambda>ident. movie_url E ident False)"
        by simp
      then show ?thesis by blast
    qed
  qed
qed

text \<open>
  The theorem at the limit 1 and three hits: one fetch for the search, one for the first
  hit, none for the others.
\<close>

theorem search_limit_witness:
  "(1::int) \<le> 1 \<and>
   snd (search (example_env three_hits) [] ''The Matrix 1999'' 1)
     = [''http://api.themoviedb.org/3/search/movie?api_key=9b939aee0aaafc12a65bf448e4af9543&query=The Matrix 1999&search_type=phrase&language=de'',
        ''http://api.themoviedb.org/3/movie/603?api_key=9b939aee0aaafc12a65bf448e4af9543&append_to_response=alternative_titles&language=de''] \<and>
   (\<exists>details.
      snd (search (example_env three_hits) [] ''The Matrix 1999'' 1)
        = (if isDisabled (example_env three_hits) then []
           else snd (search_raw (example_env three_hits) [] ''The Matrix 1999'' 1)) @ details \<and>
      int (length details) \<le> 1 \<and>
      set details \<subseteq> range (\<lambda>ident. movie_url (example_env three_hits) ident False)) \<and>
   search_loop (example_env three_hits) []
       [PDict [(''id'', PInt 603)], PDict [(''id'', PInt 604)], PDict [(''id'', PInt 605)]] 1 0 []
     = search_loop (example_env three_hits) []
         (take (nat 1)
            [PDict [(''id'', PInt 603)], PDict [(''id'', PInt 604)], PDict [(''id'', PInt 605)]])
         1 0 []"
proof -
  have h: "(1::int) \<le> 1" by simp
  have e: "snd (search (example_env three_hits) [] ''The Matrix 1999'' 1)
     = [''http://api.themoviedb.org/3/search/movie?api_key=9b939aee0aaafc12a65bf448e4af9543&query=The Matrix 1999&search_type=phrase&language=de'',
        ''http://api.themoviedb.org/3/movie/603?api_key=9b939aee0aaafc12a65bf448e4af9543&append_to_response=alternative_titles&language=de'']"
    by code_simp
  from search_limit [OF h, of "example_env three_hits" "[]" "''The Matrix 1999''" "[]"
      "[PDict [(''id'', PInt 603)], PDict [(''id'', PInt 604)], PDict [(''id'', PInt 605)]]"]
    h e
  show ?thesis by (intro conjI) (erule conjE, assumption)+
qed

text \<open>
  Claim C5 as stated fails at the limit 0: the counter is 1 after the first hit and never
  equals the limit, so all three hits are fetched and parsed.
\<close>

theorem search_limit_counterexample:
  "\<not> int (length (drop 1 (snd (search (example_env three_hits) [] ''The Matrix 1999'' 0)))) \<le> 0"
  by code_simp

lemma getInfo_result:
  assumes "fst (getInfo E log ident extended) = Inr r"
  shows "\<exists>kvs. r = PDict kvs"
proof (cases "falsy ident")
  case True
  with assms show ?thesis by (auto simp: getInfo_def)
next
  case False
  obtain x l where pm: "parseMovie E log (PDict [(''id'', ident)]) extended = (x, l)"
    by (cases "parseMovie E log (PDict [(''id'', ident)]) extended")
  with assms False obtain res where x: "x = Inr res"
    and r: "r = (if truthy res then res else PDict [])"
    by (cases x) (simp_all add: getInfo_def)
  from parseMovie_cases [OF pm [unfolded x]]
  have "res = PNone \<or> (\<exists>payload. parseMovie_payload E payload extended = Inr res)" .
  then show ?thesis
  proof
    assume "res = PNone"
    with r show ?thesis by simp
  next
    assume "\<exists>payload. parseMovie_payload E payload extended = Inr res"
    then obtain payload where "parseMovie_payload E payload extended = Inr res" ..
    from parseMovie_payload_result [OF this] obtain kvs where "res = PDict kvs" by blast
    with r show ?thesis by (cases "kvs = []") simp_all
  qed
qed

text \<open>
  Claim C8. Without an identifier \<open>getInfo\<close> returns the empty dictionary and
  fetches nothing. With any identifier and any outcome of the fetch it never returns \<open>None\<close>:
  whatever it returns is a dictionary, and when the fetch fails or brings no data the
  result is the empty dictionary.
\<close>

theorem getInfo_never_none:
  "(falsy ident \<longrightarrow> getInfo E log ident extended = (Inr (PDict []), log)) \<and>
   fst (getInfo E log ident extended) \<noteq> Inr PNone \<and>
   (\<forall>r. fst (getInfo E log ident extended) = Inr r \<longrightarrow> (\<exists>kvs. r = PDict kvs)) \<and>
   (truthy ident \<and>
    (case getJsonData E (length log) (movie_url E ident extended)
            [(''show_error'', PBool False)] of
       Inl e \<Rightarrow> True | Inr data \<Rightarrow> falsy data) \<longrightarrow>
    getInfo E log ident extended
      = (Inr (PDict []), log @ [movie_url E ident extended]))"
proof (intro conjI impI allI)
  assume "falsy ident"
  then show "getInfo E log ident extended = (Inr (PDict []), log)"
    by (simp add: getInfo_def)
next
  show "fst (getInfo E log ident extended) \<noteq> Inr PNone"
    using getInfo_result [where r = PNone] by blast
next
  fix r assume "fst (getInfo E log ident extended) = Inr r"
  then show "\<exists>kvs. r = PDict kvs" by (rule getInfo_result)
next
  assume a: "truthy ident \<and>
    (case getJsonData E (length log) (movie_url E ident extended)
            [(''show_error'', PBool False)] of
       Inl e \<Rightarrow> True | Inr data \<Rightarrow> falsy data)"
  then have "parseMovie E log (PDict [(''id'', ident)]) extended
      = (Inr PNone, log @ [movie_url E ident extended])"
    by (auto simp: parseMovie_def request_def Let_def movie_url_def dict_get_def falsy_def
        split: sum.splits)
  with a show "getInfo E log ident extended
      = (Inr (PDict []), log @ [movie_url E ident extended])"
    by (simp add: getInfo_def falsy_def)
qed

text \<open>
  The theorem without an identifier, and with the identifier \<open>tt0133093\<close> at a remote
  side that fails: the empty dictionary both times, with no fetch and with one.
\<close>

theorem getInfo_never_none_witness:
  "falsy PNone \<and>
   getInfo (example_env []) [] PNone True = (Inr (PDict []), []) \<and>
   truthy (PStr ''tt0133093'') \<and>
   (case getJsonData (example_env []) (length ([] :: string list))
           (movie_url (example_env []) (PStr ''tt0133093'') True)
           [(''show_error'', PBool False)] of
      Inl e \<Rightarrow> True | Inr data \<Rightarrow> falsy data) \<and>
   getInfo (example_env []) [] (PStr ''tt0133093'') True
     = (Inr (PDict []), [] @ [movie_url (example_env []) (PStr ''tt0133093'') True]) \<and>
   movie_url (example_env []) (PStr ''tt0133093'') True
     = ''http://api.themoviedb.org/3/movie/tt0133093?api_key=9b939aee0aaafc12a65bf448e4af9543&append_to_response=alternative_titles,images,casts&language=de''"
proof -
  have a: "falsy PNone" by (simp add: falsy_def)
  have b: "truthy (PStr ''tt0133093'') \<and>
   (case getJsonData (example_env []) (length ([] :: string list))
           (movie_url (example_env []) (PStr ''tt0133093'') True)
           [(''show_error'', PBool False)] of
      Inl e \<Rightarrow> True | Inr data \<Rightarrow> falsy data)"
    by (simp add: example_env_def replies_def)
  have u: "movie_url (example_env []) (PStr ''tt0133093'') True
     = ''http://api.themoviedb.org/3/movie/tt0133093?api_key=9b939aee0aaafc12a65bf448e4af9543&append_to_response=alternative_titles,images,casts&language=de''"
    by code_simp
  from getInfo_never_none [where ident = PNone and E = "example_env []" and log = "[]"
      and extended = True] a
  have 1: "getInfo (example_env []) [] PNone True = (Inr (PDict []), [])" by blast
  from getInfo_never_none [where ident = "PStr ''tt0133093''" and E = "example_env []"
      and log = "[]" and extended = True] b
  have 2: "getInfo (example_env []) [] (PStr ''tt0133093'') True
     = (Inr (PDict []), [] @ [movie_url (example_env []) (PStr ''tt0133093'') True])" by blast
  from a b 1 2 u show ?thesis by blast
qed

text \<open>
  What \<open>isMovie\<close> does where it returns. Without an identifier it returns \<open>None\<close>
  and fetches nothing. With an identifier it fetches the classification URL once; it
  returns \<open>False\<close> exactly when the response is a dictionary that binds \<open>is_movie\<close> to
  \<open>False\<close>, and it returns \<open>True\<close> when the response is missing or empty (falsy) and
  when it is a dictionary without the key \<open>is_movie\<close>.
\<close>

lemma isMovie_fail_open:
  "(falsy ident \<longrightarrow> isMovie E log ident adding = (Inr PNone, log)) \<and>
   (truthy ident \<longrightarrow>
      snd (isMovie E log ident adding) = log @ [isMovie_url E ident adding] \<and>
      (fst (isMovie E log ident adding) = Inr (PBool False) \<longleftrightarrow>
         (\<exists>kvs. getJsonData E (length log) (isMovie_url E ident adding)
                   [(''headers'', getRequestHeaders E)] = Inr (PDict kvs) \<and>
                map_of kvs ''is_movie'' = Some (PBool False))) \<and>
      (\<forall>data. getJsonData E (length log) (isMovie_url E ident adding)
                 [(''headers'', getRequestHeaders E)] = Inr data \<and> falsy data \<longrightarrow>
              fst (isMovie E log ident adding) = Inr (PBool True)) \<and>
      (\<forall>kvs. getJsonData E (length log) (isMovie_url E ident adding)
                 [(''headers'', getRequestHeaders E)] = Inr (PDict kvs) \<and>
              map_of kvs ''is_movie'' = None \<longrightarrow>
              fst (isMovie E log ident adding) = Inr (PBool True)))"
proof (intro conjI impI allI)
  assume "falsy ident"
  then show "isMovie E log ident adding = (Inr PNone, log)"
    by (simp add: isMovie_def)
next
  assume "truthy ident"
  then show "snd (isMovie E log ident adding) = log @ [isMovie_url E ident adding]"
    by (simp add: isMovie_def falsy_def Let_def)
next
  assume t: "truthy ident"
  show "fst (isMovie E log ident adding) = Inr (PBool False) \<longleftrightarrow>
         (\<exists>kvs. getJsonData E (length log) (isMovie_url E ident adding)
                   [(''headers'', getRequestHeaders E)] = Inr (PDict kvs) \<and>
                map_of kvs ''is_movie'' = Some (PBool False))"
  proof (cases "getJsonData E (length log) (isMovie_url E ident adding)
                   [(''headers'', getRequestHeaders E)]")
    case (Inl e)
    with t show ?thesis by (simp add: isMovie_def falsy_def Let_def)
  next
    case (Inr data)
    with t show ?thesis
      by (cases data)
         (auto simp: isMovie_def falsy_def Let_def dict_get_def split: option.splits)
  qed
next
  fix data
  assume t: "truthy ident"
    and d: "getJsonData E (length log) (isMovie_url E ident adding)
                 [(''headers'', getRequestHeaders E)] = Inr data \<and> falsy data"
  then show "fst (isMovie E log ident adding) = Inr (PBool True)"
    by (simp add: isMovie_def falsy_def Let_def)
next
  fix kvs
  assume t: "truthy ident"
    and d: "getJsonData E (length log) (isMovie_url E ident adding)
                 [(''headers'', getRequestHeaders E)] = Inr (PDict kvs) \<and>
              map_of kvs ''is_movie'' = None"
  then show "fst (isMovie E log ident adding) = Inr (PBool True)"
    by (simp add: isMovie_def falsy_def Let_def dict_get_def)
qed

text \<open>
  Four calls: no identifier; the response \<open>{"is_movie": false}\<close>; no body (the empty
  list that the fetch helper gives then); a response without the key.
\<close>

lemma isMovie_examples:
  "falsy PNone \<and>
   isMovie (example_env []) [] PNone True = (Inr PNone, []) \<and>
   truthy (PStr ''tt0133093'') \<and>
   isMovie (example_env [Inr (PDict [(''is_movie'', PBool False)])]) [] (PStr ''tt0133093'') True
     = (Inr (PBool False), [''https://api.couchpota.to/ismovie/tt0133093/?adding=1'']) \<and>
   isMovie (example_env [Inr (PList [])]) [] (PStr ''tt0133093'') True
     = (Inr (PBool True), [''https://api.couchpota.to/ismovie/tt0133093/?adding=1'']) \<and>
   isMovie (example_env [Inr (PDict [(''status'', PStr ''ok'')])]) [] (PStr ''tt0133093'') True
     = (Inr (PBool True), [''https://api.couchpota.to/ismovie/tt0133093/?adding=1''])"
proof -
  let ?i = "PStr ''tt0133093''"
  let ?u = "''https://api.couchpota.to/ismovie/tt0133093/?adding=1''"
  let ?E1 = "example_env [Inr (PDict [(''is_movie'', PBool False)])]"
  let ?E2 = "example_env [Inr (PList [])]"
  let ?E3 = "example_env [Inr (PDict [(''status'', PStr ''ok'')])]"
  have a: "falsy PNone" by (simp add: falsy_def)
  have t: "truthy ?i" by simp
  have u1: "isMovie_url ?E1 ?i True = ?u" by code_simp
  have u2: "isMovie_url ?E2 ?i True = ?u" by code_simp
  have u3: "isMovie_url ?E3 ?i True = ?u" by code_simp
  have g1: "getJsonData ?E1 (length ([] :: string list)) (isMovie_url ?E1 ?i True)
      [(''headers'', getRequestHeaders ?E1)] = Inr (PDict [(''is_movie'', PBool False)]) \<and>
      map_of [(''is_movie'', PBool False)] ''is_movie'' = Some (PBool False)"
    by (simp add: example_env_def replies_def)
  have g2: "getJsonData ?E2 (length ([] :: string list)) (isMovie_url ?E2 ?i True)
      [(''headers'', getRequestHeaders ?E2)] = Inr (PList []) \<and> falsy (PList [])"
    by (simp add: example_env_def replies_def falsy_def)
  have g3: "getJsonData ?E3 (length ([] :: string list)) (isMovie_url ?E3 ?i True)
      [(''headers'', getRequestHeaders ?E3)] = Inr (PDict [(''status'', PStr ''ok'')]) \<and>
      map_of [(''status'', PStr ''ok'')] ''is_movie'' = None"
    by (simp add: example_env_def replies_def)
  from isMovie_fail_open [where ident = PNone and E = "example_env []" and log = "[]"
      and adding = True] a
  have 0: "isMovie (example_env []) [] PNone True = (Inr PNone, [])" by blast
  from isMovie_fail_open [where ident = ?i and E = ?E1 and log = "[]" and adding = True] t g1
  have "fst (isMovie ?E1 [] ?i True) = Inr (PBool False)"
    and "snd (isMovie ?E1 [] ?i True) = [] @ [isMovie_url ?E1 ?i True]" by blast+
  with u1 have 1: "isMovie ?E1 [] ?i True = (Inr (PBool False), [?u])"
    by (simp add: prod_eq_iff)
  from isMovie_fail_open [where ident = ?i and E = ?E2 and log = "[]" and adding = True] t g2
  have "fst (isMovie ?E2 [] ?i True) = Inr (PBool True)"
    and "snd (isMovie ?E2 [] ?i True) = [] @ [isMovie_url ?E2 ?i True]" by blast+
  with u2 have 2: "isMovie ?E2 [] ?i True = (Inr (PBool True), [?u])"
    by (simp add: prod_eq_iff)
  from isMovie_fail_open [where ident = ?i and E = ?E3 and log = "[]" and adding = True] t g3
  have "fst (isMovie ?E3 [] ?i True) = Inr (PBool True)"
    and "snd (isMovie ?E3 [] ?i True) = [] @ [isMovie_url ?E3 ?i True]" by blast+
  with u3 have 3: "isMovie ?E3 [] ?i True = (Inr (PBool True), [?u])"
    by (simp add: prod_eq_iff)
  from a t 0 1 2 3 show ?thesis by blast
qed

lemma search_raw_log:
  "name_year E q = Inr (PDict d) \<Longrightarrow>
   snd (search_raw E log q limit)
     = log @ [request_url E ''search/movie'' (search_params d q limit)]"
  using request_log [of E log "''search/movie''" "search_params d q limit" "Some ''results''"]
  by (cases "request E log ''search/movie'' (search_params d q limit) (Some ''results'')")
     (auto simp: search_raw_def split: sum.splits)

text \<open>
  Claim C10. \<open>request\<close> fetches one URL, built from the call, the two settings, and the
  encoding of the parameters that are left after every parameter with a falsy value has
  been removed: the encoder is given exactly the parameters with truthy values. The
  search fetches the URL of the parameters \<open>query\<close>, \<open>year\<close> and \<open>search_type\<close>, and
  when the parsed year is falsy no parameter \<open>year\<close> is among those encoded.
\<close>

theorem request_drops_falsy_params:
  "snd (request E log call params return_key) = log @ [request_url E call params] \<and>
   request_url E call params
     = ''http://api.themoviedb.org/3/'' @ call @ ''?api_key='' @ conf_api_key E
       @ (if tryUrlencode E (truthy_params params) = [] then []
          else ''&'' @ tryUrlencode E (truthy_params params))
       @ ''&language='' @ conf_language E \<and>
   set (truthy_params params) = {p. p \<in> set params \<and> truthy (snd p)} \<and>
   (name_year E q = Inr (PDict d) \<longrightarrow>
      snd (search_raw E log q limit)
        = log @ [request_url E ''search/movie'' (search_params d q limit)]) \<and>
   (falsy (dict_get d ''year'' PNone) \<longrightarrow>
      ''year'' \<notin> fst ` set (truthy_params (search_params d q limit)))"
proof (intro conjI impI)
  show "snd (request E log call params return_key) = log @ [request_url E call params]"
    by (rule request_log)
  show "request_url E call params
     = ''http://api.themoviedb.org/3/'' @ call @ ''?api_key='' @ conf_api_key E
       @ (if tryUrlencode E (truthy_params params) = [] then []
          else ''&'' @ tryUrlencode E (truthy_params params))
       @ ''&language='' @ conf_language E"
    by (simp add: request_url_def Let_def)
  show "set (truthy_params params) = {p. p \<in> set params \<and> truthy (snd p)}"
    by (auto simp: truthy_params_def)
next
  assume "name_year E q = Inr (PDict d)"
  then show "snd (search_raw E log q limit)
        = log @ [request_url E ''search/movie'' (search_params d q limit)]"
    by (rule search_raw_log)
next
  assume "falsy (dict_get d ''year'' PNone)"
  then show "''year'' \<notin> fst ` set (truthy_params (search_params d q limit))"
    by (auto simp: truthy_params_def search_params_def falsy_def)
qed

text \<open>
  The theorem at the search for \<open>Matrix\<close>, where the title parser finds no year: the
  URL fetched has the parameters \<open>query\<close> and \<open>search_type\<close> and no \<open>year\<close>.
\<close>

theorem request_drops_falsy_params_witness:
  "name_year (example_env []) ''Matrix'' = Inr (PDict [(''name'', PStr ''Matrix'')]) \<and>
   falsy (dict_get [(''name'', PStr ''Matrix'')] ''year'' PNone) \<and>
   ''year'' \<notin> fst ` set (truthy_params (search_params [(''name'', PStr ''Matrix'')] ''Matrix'' 3)) \<and>
   snd (search_raw (example_env []) [] ''Matrix'' 3)
     = [] @ [request_url (example_env []) ''search/movie''
               (search_params [(''name'', PStr ''Matrix'')] ''Matrix'' 3)] \<and>
   request_url (example_env []) ''search/movie''
       (search_params [(''name'', PStr ''Matrix'')] ''Matrix'' 3)
     = ''http://api.themoviedb.org/3/search/movie?api_key=9b939aee0aaafc12a65bf448e4af9543&query=Matrix&search_type=ngram&language=de''"
proof -
  let ?d = "[(''name'', PStr ''Matrix'')]"
  have n: "name_year (example_env []) ''Matrix'' = Inr (PDict ?d)"
    by (simp add: example_env_def)
  have f: "falsy (dict_get ?d ''year'' PNone)" by (simp add: falsy_def dict_get_def)
  have u: "request_url (example_env []) ''search/movie'' (search_params ?d ''Matrix'' 3)
     = ''http://api.themoviedb.org/3/search/movie?api_key=9b939aee0aaafc12a65bf448e4af9543&query=Matrix&search_type=ngram&language=de''"
    by code_simp
  from request_drops_falsy_params [where E = "example_env []" and q = "''Matrix''"
      and d = ?d and log = "[]" and limit = 3] n f u
  show ?thesis by blast
qed

end
